theory Spec2Isabelle
  imports Complex_Main
begin

section \<open>JavaScript numbers\<close>

text \<open>
  Coordinates, speeds and radii of \<^verbatim>\<open>Game.tsx\<close> are JavaScript numbers. The model keeps
  the special values the arithmetic of the game can produce (\<^verbatim>\<open>NaN\<close> from \<^verbatim>\<open>0 / 0\<close>,
  \<^verbatim>\<open>Infinity\<close> as the initial \<^verbatim>\<open>minDist\<close>) and idealises the finite values as real
  numbers: no rounding, no overflow, no negative zero.
\<close>

datatype jsnum = Fin real | PInf | NInf | NaN

fun js_neg :: "jsnum \<Rightarrow> jsnum" where
  "js_neg (Fin a) = Fin (- a)"
| "js_neg PInf = NInf"
| "js_neg NInf = PInf"
| "js_neg NaN = NaN"

fun js_add :: "jsnum \<Rightarrow> jsnum \<Rightarrow> jsnum" where
  "js_add (Fin a) (Fin b) = Fin (a + b)"
| "js_add (Fin a) PInf = PInf"
| "js_add (Fin a) NInf = NInf"
| "js_add PInf (Fin b) = PInf"
| "js_add PInf PInf = PInf"
| "js_add PInf NInf = NaN"
| "js_add NInf (Fin b) = NInf"
| "js_add NInf NInf = NInf"
| "js_add NInf PInf = NaN"
| "js_add NaN b = NaN"
| "js_add a NaN = NaN"

definition js_sub :: "jsnum \<Rightarrow> jsnum \<Rightarrow> jsnum" where
  "js_sub a b = js_add a (js_neg b)"

fun js_mul :: "jsnum \<Rightarrow> jsnum \<Rightarrow> jsnum" where
  "js_mul (Fin a) (Fin b) = Fin (a * b)"
| "js_mul (Fin a) PInf = (if a = 0 then NaN else if 0 < a then PInf else NInf)"
| "js_mul (Fin a) NInf = (if a = 0 then NaN else if 0 < a then NInf else PInf)"
| "js_mul PInf (Fin b) = (if b = 0 then NaN else if 0 < b then PInf else NInf)"
| "js_mul NInf (Fin b) = (if b = 0 then NaN else if 0 < b then NInf else PInf)"
| "js_mul PInf PInf = PInf"
| "js_mul PInf NInf = NInf"
| "js_mul NInf PInf = NInf"
| "js_mul NInf NInf = PInf"
| "js_mul NaN b = NaN"
| "js_mul a NaN = NaN"

fun js_div :: "jsnum \<Rightarrow> jsnum \<Rightarrow> jsnum" where
  "js_div (Fin a) (Fin b) =
     (if b = 0 then (if a = 0 then NaN else if 0 < a then PInf else NInf)
      else Fin (a / b))"
| "js_div (Fin a) PInf = Fin 0"
| "js_div (Fin a) NInf = Fin 0"
| "js_div PInf (Fin b) = (if 0 \<le> b then PInf else NInf)"
| "js_div NInf (Fin b) = (if 0 \<le> b then NInf else PInf)"
| "js_div PInf PInf = NaN"
| "js_div PInf NInf = NaN"
| "js_div NInf PInf = NaN"
| "js_div NInf NInf = NaN"
| "js_div NaN b = NaN"
| "js_div a NaN = NaN"

fun js_sqrt :: "jsnum \<Rightarrow> jsnum" where
  "js_sqrt (Fin a) = (if a < 0 then NaN else Fin (sqrt a))"
| "js_sqrt PInf = PInf"
| "js_sqrt NInf = NaN"
| "js_sqrt NaN = NaN"

text \<open>\<^verbatim>\<open>Math.pow(a, 2)\<close>.\<close>

definition js_pow2 :: "jsnum \<Rightarrow> jsnum" where
  "js_pow2 a = js_mul a a"

fun js_abs :: "jsnum \<Rightarrow> jsnum" where
  "js_abs (Fin a) = Fin \<bar>a\<bar>"
| "js_abs PInf = PInf"
| "js_abs NInf = PInf"
| "js_abs NaN = NaN"

text \<open>Comparisons: every comparison with \<^verbatim>\<open>NaN\<close> is false, also \<^verbatim>\<open>NaN === NaN\<close>.\<close>

fun js_lt :: "jsnum \<Rightarrow> jsnum \<Rightarrow> bool" where
  "js_lt (Fin a) (Fin b) = (a < b)"
| "js_lt (Fin a) PInf = True"
| "js_lt (Fin a) NInf = False"
| "js_lt PInf b = False"
| "js_lt NInf (Fin b) = True"
| "js_lt NInf PInf = True"
| "js_lt NInf NInf = False"
| "js_lt NInf NaN = False"
| "js_lt NaN b = False"
| "js_lt (Fin a) NaN = False"

definition js_gt :: "jsnum \<Rightarrow> jsnum \<Rightarrow> bool" where
  "js_gt a b = js_lt b a"

definition js_eq :: "jsnum \<Rightarrow> jsnum \<Rightarrow> bool" where
  "js_eq a b = (a \<noteq> NaN \<and> a = b)"

definition js_ge :: "jsnum \<Rightarrow> jsnum \<Rightarrow> bool" where
  "js_ge a b = (js_lt b a \<or> js_eq a b)"

section \<open>Types and constants\<close>

text \<open>
  The interfaces of \<^verbatim>\<open>Game.tsx\<close> as records. Field names are the source's, prefixed by
  the initial of the interface (\<^verbatim>\<open>pt_\<close>, \<^verbatim>\<open>r_\<close>, \<^verbatim>\<open>i_\<close>, \<^verbatim>\<open>c_\<close>, \<^verbatim>\<open>b_\<close>), since several
  interfaces share the names \<^verbatim>\<open>id\<close>, \<^verbatim>\<open>x\<close>, \<^verbatim>\<open>pos\<close>, \<^verbatim>\<open>active\<close>.
\<close>

datatype GameState = START | PLAYING | PAUSED | WON | LOST | ROUND_END

record Point =
  pt_x :: jsnum
  pt_y :: jsnum

record Rocket =
  r_id :: real
  r_start :: Point
  r_pos :: Point
  r_target :: Point
  r_speed :: jsnum
  r_destroyed :: bool

datatype InterceptorState = FLYING | EXPLODING

record Interceptor =
  i_id :: real
  i_start :: Point
  i_pos :: Point
  i_target :: Point
  i_speed :: jsnum
  i_state :: InterceptorState
  i_explosionRadius :: jsnum
  i_maxExplosionRadius :: jsnum
  i_explosionTimer :: int

record City =
  c_id :: int
  c_x :: jsnum
  c_active :: bool
  c_shields :: int

record Battery =
  b_id :: int
  b_x :: jsnum
  b_missiles :: int
  b_maxMissiles :: int
  b_active :: bool

definition WORLD_WIDTH :: real where "WORLD_WIDTH = 1000"
definition WORLD_HEIGHT :: real where "WORLD_HEIGHT = 800"
definition EXPLOSION_SPEED :: real where "EXPLOSION_SPEED = 2"
definition INTERCEPTOR_SPEED :: real where "INTERCEPTOR_SPEED = 12"
definition ROCKET_BASE_SPEED :: real where "ROCKET_BASE_SPEED = 1 / 2"
definition WIN_SCORE_PER_LEVEL :: int where "WIN_SCORE_PER_LEVEL = 200"
definition MAX_LEVELS :: int where "MAX_LEVELS = 10"

text \<open>
  The state of the component \<^verbatim>\<open>Game\<close>: the React state (\<^verbatim>\<open>gameState\<close>, \<^verbatim>\<open>score\<close>,
  \<^verbatim>\<open>level\<close>, \<^verbatim>\<open>round\<close>, here \<open>roundNo\<close>), the four mutable refs, and
  \<^verbatim>\<open>lastSpawnTime\<close>, the local variable of the frame loop.
\<close>

record Game =
  gameState :: GameState
  score :: int
  level :: int
  roundNo :: int
  rockets :: "Rocket list"
  interceptors :: "Interceptor list"
  cities :: "City list"
  batteries :: "Battery list"
  lastSpawnTime :: real

text \<open>The initial values of \<^verbatim>\<open>citiesRef\<close> and \<^verbatim>\<open>batteriesRef\<close>.\<close>

definition initCities :: "City list" where
  "initCities =
    [\<lparr>c_id = 1, c_x = Fin 200, c_active = True, c_shields = 3\<rparr>,
     \<lparr>c_id = 2, c_x = Fin 300, c_active = True, c_shields = 3\<rparr>,
     \<lparr>c_id = 3, c_x = Fin 400, c_active = True, c_shields = 3\<rparr>,
     \<lparr>c_id = 4, c_x = Fin 600, c_active = True, c_shields = 3\<rparr>,
     \<lparr>c_id = 5, c_x = Fin 700, c_active = True, c_shields = 3\<rparr>,
     \<lparr>c_id = 6, c_x = Fin 800, c_active = True, c_shields = 3\<rparr>]"

definition initBatteries :: "Battery list" where
  "initBatteries =
    [\<lparr>b_id = 0, b_x = Fin 100, b_missiles = 20, b_maxMissiles = 20, b_active = True\<rparr>,
     \<lparr>b_id = 1, b_x = Fin 500, b_missiles = 40, b_maxMissiles = 40, b_active = True\<rparr>,
     \<lparr>b_id = 2, b_x = Fin 900, b_missiles = 20, b_maxMissiles = 20, b_active = True\<rparr>]"

section \<open>Session transitions\<close>

text \<open>The refill \<^verbatim>\<open>b => ({ ...b, active: true, missiles: b.maxMissiles })\<close>.\<close>

definition refill :: "Battery \<Rightarrow> Battery" where
  "refill b = b\<lparr>b_active := True, b_missiles := b_maxMissiles b\<rparr>"

definition nextRound :: "Game \<Rightarrow> Game" where
  "nextRound g =
     g\<lparr>roundNo := roundNo g + 1,
       rockets := [],
       interceptors := [],
       batteries := map refill (batteries g),
       gameState := PLAYING\<rparr>"

text \<open>The confetti effect of the first branch is presentation and is left out.\<close>

definition nextLevel :: "Game \<Rightarrow> Game" where
  "nextLevel g =
     (if level g \<ge> MAX_LEVELS then g\<lparr>gameState := WON\<rparr>
      else g\<lparr>level := level g + 1,
             roundNo := 1,
             rockets := [],
             interceptors := [],
             batteries := map refill (batteries g),
             gameState := PLAYING\<rparr>)"

section \<open>Spawning\<close>

text \<open>The interval of the frame loop: \<^verbatim>\<open>Math.max(300, 2000 - (level * 150) - (round * 100))\<close>.\<close>

definition spawnInterval :: "int \<Rightarrow> int \<Rightarrow> int" where
  "spawnInterval lv rd = max 300 (2000 - (lv * 150) - (rd * 100))"

definition groundPoint :: "jsnum \<Rightarrow> Point" where
  "groundPoint a = \<lparr>pt_x = a, pt_y = Fin (WORLD_HEIGHT - 20)\<rparr>"

definition spawnTargets :: "Game \<Rightarrow> Point list" where
  "spawnTargets g =
     map (\<lambda>c. groundPoint (c_x c)) (filter c_active (cities g)) @
     map (\<lambda>b. groundPoint (b_x b)) (filter b_active (batteries g))"

text \<open>
  \<^verbatim>\<open>spawnRocket\<close>. The three draws of \<^verbatim>\<open>Math.random()\<close> and the clock are parameters:
  \<open>u1\<close> picks the target, \<open>u2\<close> the start, \<open>rid\<close> is the new id. \<^verbatim>\<open>Math.random()\<close>
  lies in \<open>[0, 1)\<close>, so the index \<open>\<lfloor>u1 * length targets\<rfloor>\<close> is in range.
\<close>

definition spawnRocket :: "real \<Rightarrow> real \<Rightarrow> real \<Rightarrow> Game \<Rightarrow> Game" where
  "spawnRocket u1 u2 rid g =
     (let targets = spawnTargets g in
      if length targets = 0 then g
      else
        let target = targets ! nat \<lfloor>u1 * real (length targets)\<rfloor>;
            startX = Fin (u2 * WORLD_WIDTH);
            speed = Fin (ROCKET_BASE_SPEED + (real_of_int (level g) * (3 / 10))
                                       + (real_of_int (roundNo g) * (1 / 10)));
            newRocket = \<lparr>r_id = rid,
                         r_start = \<lparr>pt_x = startX, pt_y = Fin 0\<rparr>,
                         r_pos = \<lparr>pt_x = startX, pt_y = Fin 0\<rparr>,
                         r_target = target,
                         r_speed = speed,
                         r_destroyed = False\<rparr>
        in g\<lparr>rockets := rockets g @ [newRocket]\<rparr>)"

text \<open>The first statement of \<^verbatim>\<open>update\<close>: spawn when the interval has passed.\<close>

definition spawnPhase :: "real \<Rightarrow> real \<Rightarrow> real \<Rightarrow> real \<Rightarrow> Game \<Rightarrow> Game" where
  "spawnPhase time u1 u2 rid g =
     (if time - lastSpawnTime g > real_of_int (spawnInterval (level g) (roundNo g))
      then (spawnRocket u1 u2 rid g)\<lparr>lastSpawnTime := time\<rparr>
      else g)"

section \<open>Firing and taps\<close>

text \<open>
  The \<^verbatim>\<open>forEach\<close> of \<^verbatim>\<open>fireInterceptor\<close> that looks for the closest active battery with
  missiles. \<^verbatim>\<open>bestBattery\<close> is a reference into the array, here the index \<open>k\<close> of the
  battery; \<^verbatim>\<open>null\<close> is \<open>None\<close>.
\<close>

fun closestBattery ::
  "jsnum \<Rightarrow> Battery list \<Rightarrow> nat \<Rightarrow> nat option \<times> jsnum \<Rightarrow> nat option \<times> jsnum" where
  "closestBattery targetX [] k acc = acc"
| "closestBattery targetX (b # bs) k (bestBattery, minDist) =
     (if b_active b \<and> b_missiles b > 0 then
        (let dist = js_abs (js_sub (b_x b) targetX) in
         if js_lt dist minDist then closestBattery targetX bs (Suc k) (Some k, dist)
         else closestBattery targetX bs (Suc k) (bestBattery, minDist))
      else closestBattery targetX bs (Suc k) (bestBattery, minDist))"

definition createInterceptor :: "Battery \<Rightarrow> jsnum \<Rightarrow> jsnum \<Rightarrow> real \<Rightarrow> real \<Rightarrow> Interceptor" where
  "createInterceptor battery targetX targetY nid offsetX =
     \<lparr>i_id = nid,
      i_start = \<lparr>pt_x = js_add (b_x battery) (Fin offsetX), pt_y = Fin (WORLD_HEIGHT - 40)\<rparr>,
      i_pos = \<lparr>pt_x = js_add (b_x battery) (Fin offsetX), pt_y = Fin (WORLD_HEIGHT - 40)\<rparr>,
      i_target = \<lparr>pt_x = js_add targetX (Fin offsetX), pt_y = targetY\<rparr>,
      i_speed = Fin INTERCEPTOR_SPEED,
      i_state = FLYING,
      i_explosionRadius = Fin 0,
      i_maxExplosionRadius = Fin 60,
      i_explosionTimer = 0\<rparr>"

text \<open>
  \<^verbatim>\<open>fireInterceptor\<close>. \<open>fresh n\<close> is the id \<^verbatim>\<open>Date.now() + Math.random()\<close> given to the
  interceptor pushed when the collection holds \<open>n\<close> interceptors.
\<close>

definition fireInterceptor :: "(nat \<Rightarrow> real) \<Rightarrow> jsnum \<Rightarrow> jsnum \<Rightarrow> Game \<Rightarrow> Game" where
  "fireInterceptor fresh targetX targetY g =
     (if gameState g \<noteq> PLAYING then g
      else case fst (closestBattery targetX (batteries g) 0 (None, PInf)) of
        None \<Rightarrow> g
      | Some k \<Rightarrow>
          (let battery = (batteries g ! k)\<lparr>b_missiles := b_missiles (batteries g ! k) - 1\<rparr>;
               n = length (interceptors g)
           in g\<lparr>batteries := (batteries g)[k := battery],
                interceptors := interceptors g @
                  (if b_id battery = 1
                   then [createInterceptor battery targetX targetY (fresh n) (- 30),
                         createInterceptor battery targetX targetY (fresh (n + 1)) 0,
                         createInterceptor battery targetX targetY (fresh (n + 2)) 30]
                   else [createInterceptor battery targetX targetY (fresh n) 0])\<rparr>))"

text \<open>The explosion pushed by a direct hit on \<open>rocket\<close>.\<close>

definition hitExplosion :: "real \<Rightarrow> Rocket \<Rightarrow> Interceptor" where
  "hitExplosion nid rocket =
     \<lparr>i_id = nid,
      i_start = \<lparr>pt_x = pt_x (r_pos rocket), pt_y = pt_y (r_pos rocket)\<rparr>,
      i_pos = \<lparr>pt_x = pt_x (r_pos rocket), pt_y = pt_y (r_pos rocket)\<rparr>,
      i_target = \<lparr>pt_x = pt_x (r_pos rocket), pt_y = pt_y (r_pos rocket)\<rparr>,
      i_speed = Fin INTERCEPTOR_SPEED,
      i_state = EXPLODING,
      i_explosionRadius = Fin 10,
      i_maxExplosionRadius = Fin 60,
      i_explosionTimer = 0\<rparr>"

text \<open>The test \<^verbatim>\<open>dist < 30\<close> of the direct-hit loop.\<close>

definition directlyHit :: "jsnum \<Rightarrow> jsnum \<Rightarrow> Rocket \<Rightarrow> bool" where
  "directlyHit tx ty rocket =
     js_lt (js_sqrt (js_add (js_pow2 (js_sub (pt_x (r_pos rocket)) tx))
                            (js_pow2 (js_sub (pt_y (r_pos rocket)) ty))))
           (Fin 30)"

text \<open>
  The direct-hit \<^verbatim>\<open>forEach\<close> of \<^verbatim>\<open>handleCanvasClick\<close>, threading the score, the flag
  \<^verbatim>\<open>directHit\<close> and the interceptor collection through the rockets.
\<close>

fun directHits ::
  "(nat \<Rightarrow> real) \<Rightarrow> jsnum \<Rightarrow> jsnum \<Rightarrow> Rocket list \<Rightarrow> int \<times> bool \<times> Interceptor list
     \<Rightarrow> Rocket list \<times> int \<times> bool \<times> Interceptor list" where
  "directHits fresh tx ty [] acc = ([], acc)"
| "directHits fresh tx ty (rocket # rs) (sc, directHit, inters) =
     (if directlyHit tx ty rocket then
        (let (rs', acc') = directHits fresh tx ty rs
                 (sc + 20, True, inters @ [hitExplosion (fresh (length inters)) rocket])
         in (rocket\<lparr>r_destroyed := True\<rparr> # rs', acc'))
      else
        (let (rs', acc') = directHits fresh tx ty rs (sc, directHit, inters)
         in (rocket # rs', acc')))"

text \<open>
  \<^verbatim>\<open>handleCanvasClick\<close>, from the world-space point \<open>(tx, ty)\<close> on; the conversion of the
  pointer event to world space is the host's.
\<close>

definition handleCanvasClick :: "(nat \<Rightarrow> real) \<Rightarrow> jsnum \<Rightarrow> jsnum \<Rightarrow> Game \<Rightarrow> Game" where
  "handleCanvasClick fresh tx ty g =
     (if gameState g \<noteq> PLAYING then g
      else
        let (rs, sc, directHit, inters) =
              directHits fresh tx ty (rockets g) (score g, False, interceptors g);
            g1 = g\<lparr>rockets := rs, score := sc, interceptors := inters\<rparr>
        in if \<not> directHit then fireInterceptor fresh tx ty g1 else g1)"

section \<open>The simulation step\<close>

text \<open>The kinematics of a rocket: the first seven statements of the rocket loop.\<close>

definition rocketMove :: "Rocket \<Rightarrow> Rocket" where
  "rocketMove rocket =
     (let dx = js_sub (pt_x (r_target rocket)) (pt_x (r_start rocket));
          dy = js_sub (pt_y (r_target rocket)) (pt_y (r_start rocket));
          dist = js_sqrt (js_add (js_mul dx dx) (js_mul dy dy));
          vx = js_mul (js_div dx dist) (r_speed rocket);
          vy = js_mul (js_div dy dist) (r_speed rocket)
      in rocket\<lparr>r_pos := \<lparr>pt_x = js_add (pt_x (r_pos rocket)) vx,
                           pt_y = js_add (pt_y (r_pos rocket)) vy\<rparr>\<rparr>)"

text \<open>
  \<^verbatim>\<open>citiesRef.current.find(c => c.x === rocket.target.x)\<close> followed by the damage to
  the city found: the first city with that x, damaged if it is active.
\<close>

fun damageCity :: "jsnum \<Rightarrow> City list \<Rightarrow> City list" where
  "damageCity tx [] = []"
| "damageCity tx (city # cs) =
     (if js_eq (c_x city) tx then
        (if c_active city then
           (let city1 = city\<lparr>c_shields := c_shields city - 1\<rparr>
            in (if c_shields city1 \<le> 0 then city1\<lparr>c_active := False\<rparr> else city1) # cs)
         else city # cs)
      else city # damageCity tx cs)"

text \<open>\<^verbatim>\<open>batteriesRef.current.find(b => b.x === rocket.target.x)\<close> and its deactivation.\<close>

fun damageBattery :: "jsnum \<Rightarrow> Battery list \<Rightarrow> Battery list" where
  "damageBattery tx [] = []"
| "damageBattery tx (battery # bs) =
     (if js_eq (b_x battery) tx then battery\<lparr>b_active := False\<rparr> # bs
      else battery # damageBattery tx bs)"

text \<open>The body of the rocket loop for one rocket.\<close>

definition rocketStep :: "Rocket \<Rightarrow> City list \<Rightarrow> Battery list \<Rightarrow> Rocket \<times> City list \<times> Battery list" where
  "rocketStep rocket cs bs =
     (let moved = rocketMove rocket in
      if js_ge (pt_y (r_pos moved)) (pt_y (r_target moved)) then
        (moved\<lparr>r_destroyed := True\<rparr>,
         damageCity (pt_x (r_target moved)) cs,
         damageBattery (pt_x (r_target moved)) bs)
      else (moved, cs, bs))"


fun updateRockets :: "Rocket list \<Rightarrow> City list \<Rightarrow> Battery list \<Rightarrow> Rocket list \<times> City list \<times> Battery list" where
  "updateRockets [] cs bs = ([], cs, bs)"
| "updateRockets (rocket # rs) cs bs =
     (let (rocket', cs1, bs1) = rocketStep rocket cs bs;
          (rs', cs2, bs2) = updateRockets rs cs1 bs1
      in (rocket' # rs', cs2, bs2))"

text \<open>The collision loop of an exploding interceptor over the rockets.\<close>

fun blast :: "Interceptor \<Rightarrow> Rocket list \<Rightarrow> int \<Rightarrow> Rocket list \<times> int" where
  "blast icp [] sc = ([], sc)"
| "blast icp (rocket # rs) sc =
     (if \<not> r_destroyed rocket \<and>
         js_lt (js_sqrt (js_add (js_pow2 (js_sub (pt_x (r_pos rocket)) (pt_x (i_pos icp))))
                                (js_pow2 (js_sub (pt_y (r_pos rocket)) (pt_y (i_pos icp))))))
               (i_explosionRadius icp)
      then (let (rs', sc') = blast icp rs (sc + 20)
            in (rocket\<lparr>r_destroyed := True\<rparr> # rs', sc'))
      else (let (rs', sc') = blast icp rs sc in (rocket # rs', sc')))"

text \<open>The kinematics of a flying interceptor, with the test for its arrival.\<close>

definition interceptorFly :: "Interceptor \<Rightarrow> Interceptor" where
  "interceptorFly icp =
     (let dx = js_sub (pt_x (i_target icp)) (pt_x (i_start icp));
          dy = js_sub (pt_y (i_target icp)) (pt_y (i_start icp));
          dist = js_sqrt (js_add (js_mul dx dx) (js_mul dy dy));
          vx = js_mul (js_div dx dist) (i_speed icp);
          vy = js_mul (js_div dy dist) (i_speed icp);
          moved = icp\<lparr>i_pos := \<lparr>pt_x = js_add (pt_x (i_pos icp)) vx,
                                   pt_y = js_add (pt_y (i_pos icp)) vy\<rparr>\<rparr>;
          distToTarget = js_sqrt (js_add
             (js_pow2 (js_sub (pt_x (i_pos moved)) (pt_x (i_target moved))))
             (js_pow2 (js_sub (pt_y (i_pos moved)) (pt_y (i_target moved)))))
      in if js_lt distToTarget (i_speed moved) then moved\<lparr>i_state := EXPLODING\<rparr> else moved)"

text \<open>The growth and shrinking of an explosion, before its collision loop.\<close>

definition explodeTick :: "Interceptor \<Rightarrow> Interceptor" where
  "explodeTick icp =
     (let icp1 =
            (if i_explosionTimer icp < 30
             then icp\<lparr>i_explosionRadius := js_add (i_explosionRadius icp) (Fin EXPLOSION_SPEED)\<rparr>
             else icp\<lparr>i_explosionRadius := js_sub (i_explosionRadius icp) (Fin EXPLOSION_SPEED)\<rparr>)
      in icp1\<lparr>i_explosionTimer := i_explosionTimer icp1 + 1\<rparr>)"

text \<open>The body of the interceptor loop for one interceptor.\<close>

definition interceptorStep :: "Interceptor \<Rightarrow> Rocket list \<Rightarrow> int \<Rightarrow> Interceptor \<times> Rocket list \<times> int" where
  "interceptorStep icp rs sc =
     (if i_state icp = FLYING then (interceptorFly icp, rs, sc)
      else (let icp' = explodeTick icp; (rs', sc') = blast icp' rs sc
            in (icp', rs', sc')))"

fun updateInterceptors :: "Interceptor list \<Rightarrow> Rocket list \<Rightarrow> int \<Rightarrow> Interceptor list \<times> Rocket list \<times> int" where
  "updateInterceptors [] rs sc = ([], rs, sc)"
| "updateInterceptors (icp # ics) rs sc =
     (let (icp', rs1, sc1) = interceptorStep icp rs sc;
          (ics', rs2, sc2) = updateInterceptors ics rs1 sc1
      in (icp' # ics', rs2, sc2))"

text \<open>The two filters of the cleanup.\<close>

definition liveRocket :: "Rocket \<Rightarrow> bool" where
  "liveRocket r = (\<not> r_destroyed r)"

definition keptInterceptor :: "Interceptor \<Rightarrow> bool" where
  "keptInterceptor i = (js_gt (i_explosionRadius i) (Fin 0) \<or> i_state i = FLYING)"

text \<open>
  The checks at the end of \<^verbatim>\<open>update\<close>. \<open>score0\<close> is the \<^verbatim>\<open>score\<close> of the closure, the
  score of the render that installed the loop; the \<^verbatim>\<open>setScore\<close> updaters of the step act
  on the field \<open>score\<close>. Of two calls of \<^verbatim>\<open>setGameState\<close> in one step the later one
  stays.
\<close>

definition checkEnd :: "int \<Rightarrow> Game \<Rightarrow> Game" where
  "checkEnd score0 g =
     (let g1 = (if list_all (\<lambda>b. \<not> b_active b) (batteries g) then g\<lparr>gameState := LOST\<rparr>
                else if score0 \<ge> level g * WIN_SCORE_PER_LEVEL then g\<lparr>gameState := ROUND_END\<rparr>
                else g);
          totalMissiles = foldl (\<lambda>acc b. acc + b_missiles b) 0 (batteries g1)
      in if totalMissiles = 0 \<and> length (rockets g1) = 0 \<and> length (interceptors g1) = 0 then
           (let activeCities = filter c_active (cities g1);
                bonus = int (length activeCities) * 50
                        + foldl (\<lambda>acc c. acc + c_shields c * 20) 0 activeCities
            in g1\<lparr>score := score g1 + bonus, gameState := ROUND_END\<rparr>)
         else g1)"

text \<open>
  One call of \<^verbatim>\<open>update\<close>, without the drawing. React installs the loop anew, with
  \<^verbatim>\<open>lastSpawnTime\<close> 0 again, whenever \<^verbatim>\<open>gameState\<close>, \<^verbatim>\<open>round\<close>, \<^verbatim>\<open>score\<close> or
  \<^verbatim>\<open>level\<close> change; that is outside this function.
\<close>

definition update :: "real \<Rightarrow> real \<Rightarrow> real \<Rightarrow> real \<Rightarrow> Game \<Rightarrow> Game" where
  "update time u1 u2 rid g =
     (let g1 = spawnPhase time u1 u2 rid g;
          (rs1, cs, bs) = updateRockets (rockets g1) (cities g1) (batteries g1);
          (ics1, rs2, sc) = updateInterceptors (interceptors g1) rs1 (score g1);
          g2 = g1\<lparr>rockets := filter liveRocket rs2,
                  interceptors := filter keptInterceptor ics1,
                  cities := cs,
                  batteries := bs,
                  score := sc\<rparr>
      in checkEnd (score g) g2)"

section \<open>Scenarios\<close>

text \<open>The state after \<^verbatim>\<open>resetGame\<close> on the initial refs.\<close>

definition freshGame :: Game where
  "freshGame =
     \<lparr>gameState = PLAYING, score = 0, level = 1, roundNo = 1,
      rockets = [], interceptors = [],
      cities = initCities, batteries = initBatteries,
      lastSpawnTime = 0\<rparr>"

text \<open>
  A rocket of level 1, round 1 (speed \<open>0.5 + 0.3 + 0.1\<close>) half a unit above the
  ground point \<open>(tx, 780)\<close> it falls to vertically.
\<close>

definition fallingOn :: "real \<Rightarrow> Rocket" where
  "fallingOn tx =
     \<lparr>r_id = 1,
      r_start = \<lparr>pt_x = Fin tx, pt_y = Fin 0\<rparr>,
      r_pos = \<lparr>pt_x = Fin tx, pt_y = Fin (1559 / 2)\<rparr>,
      r_target = \<lparr>pt_x = Fin tx, pt_y = Fin 780\<rparr>,
      r_speed = Fin (9 / 10),
      r_destroyed = False\<rparr>"


text \<open>Ids for the interceptors of a scenario: all \<open>0\<close>.\<close>

definition noIds :: "nat \<Rightarrow> real" where
  "noIds n = 0"

text \<open>Every city and every battery inactive.\<close>

definition noTargets :: Game where
  "noTargets =
     freshGame\<lparr>cities := map (\<lambda>c. c\<lparr>c_active := False, c_shields := 0\<rparr>) initCities,
               batteries := map (\<lambda>b. b\<lparr>b_active := False\<rparr>) initBatteries\<rparr>"

text \<open>
  All ammunition spent, the outer batteries lost, and the last rocket on the field
  about to land on the center battery.
\<close>

definition lastStand :: Game where
  "lastStand =
     freshGame\<lparr>rockets := [fallingOn 500],
               batteries :=
        [\<lparr>b_id = 0, b_x = Fin 100, b_missiles = 0, b_maxMissiles = 20, b_active = False\<rparr>,
         \<lparr>b_id = 1, b_x = Fin 500, b_missiles = 0, b_maxMissiles = 40, b_active = True\<rparr>,
         \<lparr>b_id = 2, b_x = Fin 900, b_missiles = 0, b_maxMissiles = 20, b_active = False\<rparr>]\<rparr>"

text \<open>A tap on a rocket that is about to land on the first city.\<close>

definition tapped :: Game where
  "tapped =
     handleCanvasClick noIds (Fin 200) (Fin (1559 / 2)) (freshGame\<lparr>rockets := [fallingOn 200]\<rparr>)"

text \<open>A tap on the muzzle of the left battery, the point its interceptors start from.\<close>

definition muzzleTap :: Game where
  "muzzleTap = fireInterceptor noIds (Fin 100) (Fin 760) freshGame"

text \<open>A rocket whose start is its target.\<close>

definition parked :: Rocket where
  "parked =
     \<lparr>r_id = 1,
      r_start = \<lparr>pt_x = Fin 200, pt_y = Fin 780\<rparr>,
      r_pos = \<lparr>pt_x = Fin 200, pt_y = Fin 780\<rparr>,
      r_target = \<lparr>pt_x = Fin 200, pt_y = Fin 780\<rparr>,
      r_speed = Fin (9 / 10),
      r_destroyed = False\<rparr>"

text \<open>A tap 60 units above the left battery: that battery fires straight up.\<close>

definition firedUp :: Game where
  "firedUp = fireInterceptor noIds (Fin 100) (Fin 700) freshGame"

text \<open>A rocket in mid-air, alone on the field.\<close>

definition midAir :: Rocket where
  "midAir =
     \<lparr>r_id = 1,
      r_start = \<lparr>pt_x = Fin 500, pt_y = Fin 0\<rparr>,
      r_pos = \<lparr>pt_x = Fin 500, pt_y = Fin 300\<rparr>,
      r_target = \<lparr>pt_x = Fin 500, pt_y = Fin 780\<rparr>,
      r_speed = Fin (9 / 10),
      r_destroyed = False\<rparr>"

definition tapState :: Game where
  "tapState = freshGame\<lparr>rockets := [midAir]\<rparr>"

text \<open>Every battery active and out of ammunition.\<close>

definition dry :: Game where
  "dry = freshGame\<lparr>batteries := map (\<lambda>b. b\<lparr>b_missiles := 0\<rparr>) initBatteries\<rparr>"

section \<open>Facts about the number model\<close>

lemmas js_defs = js_sub_def js_pow2_def js_gt_def js_ge_def js_eq_def

lemmas const_defs = WORLD_WIDTH_def WORLD_HEIGHT_def EXPLOSION_SPEED_def
  INTERCEPTOR_SPEED_def ROCKET_BASE_SPEED_def WIN_SCORE_PER_LEVEL_def MAX_LEVELS_def


lemma sqrt_sq: "0 \<le> b \<Longrightarrow> a = b * b \<Longrightarrow> sqrt a = b"
  by simp

lemma sqrt_608400: "sqrt 608400 = 780"
  by (rule sqrt_sq) simp_all

lemma sqrt_values:
  "sqrt 3600 = 60" "sqrt 2304 = 48" "sqrt 1296 = 36" "sqrt 576 = 24" "sqrt 144 = 12"
  "sqrt 100 = 10"
  by (rule sqrt_sq; simp)+

lemma js_add_zero: "js_add a (Fin 0) = a"
  by (cases a) simp_all

lemma js_lt_irrefl: "\<not> js_lt a a"
  by (cases a) simp_all

lemma js_lt_trans: "js_lt a b \<Longrightarrow> js_lt b c \<Longrightarrow> js_lt a c"
  by (cases a; cases b; cases c) simp_all

lemmas step_defs = update_def spawnPhase_def spawnInterval_def rocketStep_def rocketMove_def
  interceptorStep_def interceptorFly_def explodeTick_def checkEnd_def liveRocket_def
  keptInterceptor_def

lemmas scene_defs = freshGame_def initCities_def initBatteries_def fallingOn_def noIds_def

section \<open>Round and level transitions\<close>

text \<open>
  C8. The round transition \<^verbatim>\<open>nextRound\<close> leaves the cities as they are (active flags
  and shields), sets the ammo of every battery to its maximum and its active flag to
  true, empties the rocket and interceptor collections and adds one to the round
  counter; level and score stay, and the session is PLAYING.
\<close>

theorem nextRound_frame:
  "cities (nextRound g) = cities g
   \<and> map b_missiles (batteries (nextRound g)) = map b_maxMissiles (batteries g)
   \<and> map b_active (batteries (nextRound g)) = replicate (length (batteries g)) True
   \<and> map b_maxMissiles (batteries (nextRound g)) = map b_maxMissiles (batteries g)
   \<and> map b_id (batteries (nextRound g)) = map b_id (batteries g)
   \<and> map b_x (batteries (nextRound g)) = map b_x (batteries g)
   \<and> rockets (nextRound g) = []
   \<and> interceptors (nextRound g) = []
   \<and> roundNo (nextRound g) = roundNo g + 1
   \<and> level (nextRound g) = level g
   \<and> score (nextRound g) = score g
   \<and> gameState (nextRound g) = PLAYING"
  by (simp add: nextRound_def refill_def comp_def map_replicate_const)

text \<open>
  C10. \<^verbatim>\<open>nextLevel\<close> ends in WON exactly when the level is at least 10, and then
  changes nothing but the session state (level, score, rockets, interceptors, cities
  and batteries stay); when the level is below 10 it adds one to the level, sets the
  round to 1, empties rockets and interceptors, refills and reactivates every battery,
  and the session is PLAYING.
\<close>

theorem nextLevel_won_iff:
  "(gameState (nextLevel g) = WON \<longleftrightarrow> level g \<ge> 10)
   \<and> (level g \<ge> 10 \<longrightarrow> nextLevel g = g\<lparr>gameState := WON\<rparr>)
   \<and> (level g < 10 \<longrightarrow>
        level (nextLevel g) = level g + 1
        \<and> roundNo (nextLevel g) = 1
        \<and> score (nextLevel g) = score g
        \<and> cities (nextLevel g) = cities g
        \<and> rockets (nextLevel g) = []
        \<and> interceptors (nextLevel g) = []
        \<and> map b_missiles (batteries (nextLevel g)) = map b_maxMissiles (batteries g)
        \<and> map b_active (batteries (nextLevel g)) = replicate (length (batteries g)) True
        \<and> gameState (nextLevel g) = PLAYING)"
  by (simp add: nextLevel_def MAX_LEVELS_def refill_def comp_def map_replicate_const)

theorem nextLevel_won_iff_witness:
  "level (freshGame\<lparr>gameState := ROUND_END, level := 10, score := 2000\<rparr>) \<ge> 10
   \<and> nextLevel (freshGame\<lparr>gameState := ROUND_END, level := 10, score := 2000\<rparr>)
       = freshGame\<lparr>gameState := WON, level := 10, score := 2000\<rparr>
   \<and> level (freshGame\<lparr>gameState := ROUND_END, level := 9, score := 1800\<rparr>) < 10
   \<and> level (nextLevel (freshGame\<lparr>gameState := ROUND_END, level := 9, score := 1800\<rparr>)) = 10
   \<and> gameState (nextLevel (freshGame\<lparr>gameState := ROUND_END, level := 9, score := 1800\<rparr>))
       = PLAYING"
  using nextLevel_won_iff [of "freshGame\<lparr>gameState := ROUND_END, level := 10, score := 2000\<rparr>"]
        nextLevel_won_iff [of "freshGame\<lparr>gameState := ROUND_END, level := 9, score := 1800\<rparr>"]
  by simp

section \<open>Impact of a rocket\<close>
























section \<open>Spawn interval and spawn decision\<close>

lemma spawnTargets_empty_iff:
  "spawnTargets g = [] \<longleftrightarrow> \<not> (list_ex c_active (cities g) \<or> list_ex b_active (batteries g))"
  by (auto simp: spawnTargets_def filter_empty_conv list_ex_iff)

text \<open>
  With no city and no battery active, \<^verbatim>\<open>spawnRocket\<close> returns at its guard
  \<^verbatim>\<open>targets.length === 0\<close>: the interval has passed (5000 against 1750) and the step
  spawns no rocket.
\<close>

theorem spawn_without_target_counterexample:
  "5000 - lastSpawnTime noTargets
      > real_of_int (spawnInterval (level noTargets) (roundNo noTargets))
   \<and> spawnInterval (level noTargets) (roundNo noTargets) = 1750
   \<and> rockets noTargets = []
   \<and> rockets (spawnPhase 5000 0 0 1 noTargets) = []
   \<and> rockets (update 5000 0 0 1 noTargets) = []"
  by (simp add: noTargets_def scene_defs step_defs spawnRocket_def spawnTargets_def
        const_defs Let_def)

text \<open>
  C7, amended. The spawn interval is \<open>max 300 (2000 - level * 150 - round * 100)\<close>,
  weakly decreasing in the level and in the round, at least 300, and 1750 at level 1,
  round 1. When the time since \<^verbatim>\<open>lastSpawnTime\<close> exceeds the interval, the step appends
  exactly one rocket, not destroyed, if a city or a battery is active, and no rocket if
  none is; otherwise the spawn decision changes nothing.
\<close>

theorem spawn_interval_and_spawn:
  "spawnInterval lv rd = max 300 (2000 - lv * 150 - rd * 100)
   \<and> (lv \<le> lv2 \<longrightarrow> spawnInterval lv2 rd \<le> spawnInterval lv rd)
   \<and> (rd \<le> rd2 \<longrightarrow> spawnInterval lv rd2 \<le> spawnInterval lv rd)
   \<and> 300 \<le> spawnInterval lv rd
   \<and> spawnInterval 1 1 = 1750
   \<and> (time - lastSpawnTime g > real_of_int (spawnInterval (level g) (roundNo g))
        \<and> (list_ex c_active (cities g) \<or> list_ex b_active (batteries g)) \<longrightarrow>
          length (rockets (spawnPhase time u1 u2 rid g)) = length (rockets g) + 1
          \<and> butlast (rockets (spawnPhase time u1 u2 rid g)) = rockets g
          \<and> \<not> r_destroyed (last (rockets (spawnPhase time u1 u2 rid g)))
          \<and> lastSpawnTime (spawnPhase time u1 u2 rid g) = time)
   \<and> (time - lastSpawnTime g > real_of_int (spawnInterval (level g) (roundNo g))
        \<and> \<not> (list_ex c_active (cities g) \<or> list_ex b_active (batteries g)) \<longrightarrow>
          rockets (spawnPhase time u1 u2 rid g) = rockets g)
   \<and> (\<not> time - lastSpawnTime g > real_of_int (spawnInterval (level g) (roundNo g)) \<longrightarrow>
          spawnPhase time u1 u2 rid g = g)"
proof -
  have a: "spawnInterval lv rd = max 300 (2000 - lv * 150 - rd * 100)"
    by (simp add: spawnInterval_def)
  have b: "lv \<le> lv2 \<longrightarrow> spawnInterval lv2 rd \<le> spawnInterval lv rd"
    unfolding spawnInterval_def by linarith
  have c: "rd \<le> rd2 \<longrightarrow> spawnInterval lv rd2 \<le> spawnInterval lv rd"
    unfolding spawnInterval_def by linarith
  have d: "300 \<le> spawnInterval lv rd" by (simp add: spawnInterval_def)
  have e: "spawnInterval 1 1 = 1750" by (simp add: spawnInterval_def)
  have f: "length (rockets (spawnPhase time u1 u2 rid g)) = length (rockets g) + 1
          \<and> butlast (rockets (spawnPhase time u1 u2 rid g)) = rockets g
          \<and> \<not> r_destroyed (last (rockets (spawnPhase time u1 u2 rid g)))
          \<and> lastSpawnTime (spawnPhase time u1 u2 rid g) = time"
    if "time - lastSpawnTime g > real_of_int (spawnInterval (level g) (roundNo g))"
      and "list_ex c_active (cities g) \<or> list_ex b_active (batteries g)"
  proof -
    from that(2) have "spawnTargets g \<noteq> []" by (simp add: spawnTargets_empty_iff)
    with that(1) show ?thesis by (simp add: spawnPhase_def spawnRocket_def Let_def)
  qed
  have h: "rockets (spawnPhase time u1 u2 rid g) = rockets g"
    if "time - lastSpawnTime g > real_of_int (spawnInterval (level g) (roundNo g))"
      and "\<not> (list_ex c_active (cities g) \<or> list_ex b_active (batteries g))"
  proof -
    from that(2) have "spawnTargets g = []" by (simp add: spawnTargets_empty_iff)
    with that(1) show ?thesis by (simp add: spawnPhase_def spawnRocket_def Let_def)
  qed
  have i: "\<not> time - lastSpawnTime g > real_of_int (spawnInterval (level g) (roundNo g)) \<longrightarrow>
          spawnPhase time u1 u2 rid g = g"
    by (simp add: spawnPhase_def)
  from a b c d e f h i show ?thesis by blast
qed

theorem spawn_interval_and_spawn_witness:
  "(1::int) \<le> 2
   \<and> spawnInterval 2 1 \<le> spawnInterval 1 1
   \<and> spawnInterval 1 2 \<le> spawnInterval 1 1
   \<and> 5000 - lastSpawnTime freshGame
        > real_of_int (spawnInterval (level freshGame) (roundNo freshGame))
   \<and> list_ex c_active (cities freshGame)
   \<and> length (rockets (spawnPhase 5000 0 0 1 freshGame)) = length (rockets freshGame) + 1
   \<and> \<not> list_ex c_active (cities noTargets)
   \<and> \<not> list_ex b_active (batteries noTargets)
   \<and> rockets (spawnPhase 5000 0 0 1 noTargets) = rockets noTargets
   \<and> \<not> 1000 - lastSpawnTime freshGame
        > real_of_int (spawnInterval (level freshGame) (roundNo freshGame))
   \<and> spawnPhase 1000 0 0 1 freshGame = freshGame"
proof -
  have e: "5000 - lastSpawnTime freshGame
      > real_of_int (spawnInterval (level freshGame) (roundNo freshGame))"
    by (simp add: freshGame_def spawnInterval_def)
  have e': "5000 - lastSpawnTime noTargets
      > real_of_int (spawnInterval (level noTargets) (roundNo noTargets))"
    by (simp add: noTargets_def freshGame_def spawnInterval_def)
  have n: "\<not> 1000 - lastSpawnTime freshGame
      > real_of_int (spawnInterval (level freshGame) (roundNo freshGame))"
    by (simp add: freshGame_def spawnInterval_def)
  have t: "list_ex c_active (cities freshGame)"
    by (simp add: freshGame_def initCities_def)
  have t1: "\<not> list_ex c_active (cities noTargets)"
    by (simp add: noTargets_def freshGame_def initCities_def)
  have t2: "\<not> list_ex b_active (batteries noTargets)"
    by (simp add: noTargets_def freshGame_def initBatteries_def)
  note A = spawn_interval_and_spawn [where lv = 1 and rd = 1 and ?lv2.0 = 2 and ?rd2.0 = 2
      and time = 5000 and g = freshGame and ?u1.0 = 0 and ?u2.0 = 0 and rid = 1]
  note B = spawn_interval_and_spawn [where lv = 1 and rd = 1 and ?lv2.0 = 2 and ?rd2.0 = 2
      and time = 5000 and g = noTargets and ?u1.0 = 0 and ?u2.0 = 0 and rid = 1]
  note C = spawn_interval_and_spawn [where lv = 1 and rd = 1 and ?lv2.0 = 2 and ?rd2.0 = 2
      and time = 1000 and g = freshGame and ?u1.0 = 0 and ?u2.0 = 0 and rid = 1]
  from A have m1: "spawnInterval 2 1 \<le> spawnInterval 1 1" by simp
  from A have m2: "spawnInterval 1 2 \<le> spawnInterval 1 1" by simp
  from A e t have s1:
    "length (rockets (spawnPhase 5000 0 0 1 freshGame)) = length (rockets freshGame) + 1"
    by blast
  from B e' t1 t2 have s0: "rockets (spawnPhase 5000 0 0 1 noTargets) = rockets noTargets"
    by blast
  from C n have s2: "spawnPhase 1000 0 0 1 freshGame = freshGame" by blast
  from m1 m2 e t s1 t1 t2 s0 n s2 show ?thesis by simp
qed

section \<open>Fire requests\<close>

lemma closestBattery_cases:
  "closestBattery tx bs k (best, md) = (res, d) \<Longrightarrow>
     (res = best \<and> d = md) \<or>
     (\<exists>j<length bs. res = Some (k + j) \<and> b_active (bs ! j) \<and> 0 < b_missiles (bs ! j)
        \<and> d = js_abs (js_sub (b_x (bs ! j)) tx))"
proof (induction bs arbitrary: k best md)
  case Nil
  then show ?case by simp
next
  case (Cons b bs)
  let ?dist = "js_abs (js_sub (b_x b) tx)"
  show ?case
  proof (cases "b_active b \<and> b_missiles b > 0 \<and> js_lt ?dist md")
    case True
    with Cons.prems have "closestBattery tx bs (Suc k) (Some k, ?dist) = (res, d)"
      by (simp add: Let_def)
    from Cons.IH[OF this] True show ?thesis by fastforce
  next
    case False
    with Cons.prems have "closestBattery tx bs (Suc k) (best, md) = (res, d)"
      by (auto simp: Let_def split: if_splits)
    from Cons.IH[OF this] show ?thesis by fastforce
  qed
qed

lemma closestBattery_le:
  "closestBattery tx bs k (best, md) = (res, d) \<Longrightarrow> d = md \<or> js_lt d md"
proof (induction bs arbitrary: k best md)
  case Nil
  then show ?case by simp
next
  case (Cons b bs)
  let ?dist = "js_abs (js_sub (b_x b) tx)"
  show ?case
  proof (cases "b_active b \<and> b_missiles b > 0 \<and> js_lt ?dist md")
    case True
    with Cons.prems have "closestBattery tx bs (Suc k) (Some k, ?dist) = (res, d)"
      by (simp add: Let_def)
    from Cons.IH[OF this] True show ?thesis by (auto intro: js_lt_trans)
  next
    case False
    with Cons.prems have "closestBattery tx bs (Suc k) (best, md) = (res, d)"
      by (auto simp: Let_def split: if_splits)
    from Cons.IH[OF this] show ?thesis .
  qed
qed

lemma closestBattery_min:
  "closestBattery tx bs k (best, md) = (res, d) \<Longrightarrow> j < length bs \<Longrightarrow>
   b_active (bs ! j) \<Longrightarrow> 0 < b_missiles (bs ! j) \<Longrightarrow>
   \<not> js_lt (js_abs (js_sub (b_x (bs ! j)) tx)) d"
proof (induction bs arbitrary: k best md j)
  case Nil
  then show ?case by simp
next
  case (Cons b bs)
  let ?dist = "js_abs (js_sub (b_x b) tx)"
  show ?case
  proof (cases "b_active b \<and> b_missiles b > 0 \<and> js_lt ?dist md")
    case True
    with Cons.prems(1) have r: "closestBattery tx bs (Suc k) (Some k, ?dist) = (res, d)"
      by (simp add: Let_def)
    show ?thesis
    proof (cases j)
      case 0
      from closestBattery_le[OF r] have "d = ?dist \<or> js_lt d ?dist" .
      then have "\<not> js_lt ?dist d" using js_lt_irrefl js_lt_trans by blast
      with 0 show ?thesis by simp
    next
      case (Suc i)
      with Cons.prems Cons.IH[OF r, of i] show ?thesis by simp
    qed
  next
    case False
    with Cons.prems(1) have r: "closestBattery tx bs (Suc k) (best, md) = (res, d)"
      by (auto simp: Let_def split: if_splits)
    show ?thesis
    proof (cases j)
      case 0
      with Cons.prems False have nl: "\<not> js_lt ?dist md" by simp
      from closestBattery_le[OF r] have "d = md \<or> js_lt d md" .
      with nl have "\<not> js_lt ?dist d" using js_lt_trans by blast
      with 0 show ?thesis by simp
    next
      case (Suc i)
      with Cons.prems Cons.IH[OF r, of i] show ?thesis by simp
    qed
  qed
qed

lemma closestBattery_none:
  "\<forall>b\<in>set bs. \<not> (b_active b \<and> 0 < b_missiles b) \<Longrightarrow>
   closestBattery tx bs k (best, md) = (best, md)"
  by (induction bs arbitrary: k) auto

lemma best_eligible:
  assumes "fst (closestBattery tx bs 0 (None, PInf)) = Some k"
  shows "k < length bs \<and> b_active (bs ! k) \<and> 0 < b_missiles (bs ! k)"
proof -
  obtain res d where rd: "closestBattery tx bs 0 (None, PInf) = (res, d)"
    by (cases "closestBattery tx bs 0 (None, PInf)")
  with assms have "res = Some k" by simp
  with closestBattery_cases[OF rd] show ?thesis by auto
qed

lemma fire_some:
  assumes "gameState g = PLAYING"
      and "fst (closestBattery tx (batteries g) 0 (None, PInf)) = Some k"
  shows "fireInterceptor fresh tx ty g =
     (let battery = (batteries g ! k)\<lparr>b_missiles := b_missiles (batteries g ! k) - 1\<rparr>;
          n = length (interceptors g)
      in g\<lparr>batteries := (batteries g)[k := battery],
           interceptors := interceptors g @
             (if b_id battery = 1
              then [createInterceptor battery tx ty (fresh n) (- 30),
                    createInterceptor battery tx ty (fresh (n + 1)) 0,
                    createInterceptor battery tx ty (fresh (n + 2)) 30]
              else [createInterceptor battery tx ty (fresh n) 0])\<rparr>)"
  using assms by (simp add: fireInterceptor_def)

text \<open>
  C6. A fire request that finds a battery (\<^verbatim>\<open>bestBattery\<close> is the battery of index
  \<open>k\<close>) takes exactly one missile from that battery, which is active and had
  ammunition, and leaves the other batteries as they are. If the battery has id 1, three
  interceptors are appended, starting at the battery's x shifted by -30, 0 and +30 and
  aimed at the tap's x shifted by the same offsets; any other battery appends one
  interceptor, starting at the battery and aimed at the tap point. The new interceptors
  are FLYING from their start; score, rockets and cities stay.
\<close>

theorem fire_request:
  assumes playing: "gameState g = PLAYING"
      and best: "fst (closestBattery tx (batteries g) 0 (None, PInf)) = Some k"
  shows "k < length (batteries g)
    \<and> b_active (batteries g ! k) \<and> 0 < b_missiles (batteries g ! k)
    \<and> batteries (fireInterceptor fresh tx ty g) =
        (batteries g)[k := (batteries g ! k)\<lparr>b_missiles := b_missiles (batteries g ! k) - 1\<rparr>]
    \<and> take (length (interceptors g)) (interceptors (fireInterceptor fresh tx ty g)) = interceptors g
    \<and> (b_id (batteries g ! k) = 1 \<longrightarrow>
         map i_start (drop (length (interceptors g)) (interceptors (fireInterceptor fresh tx ty g))) =
           [\<lparr>pt_x = js_add (b_x (batteries g ! k)) (Fin (- 30)), pt_y = Fin 760\<rparr>,
            \<lparr>pt_x = b_x (batteries g ! k), pt_y = Fin 760\<rparr>,
            \<lparr>pt_x = js_add (b_x (batteries g ! k)) (Fin 30), pt_y = Fin 760\<rparr>]
         \<and> map i_target (drop (length (interceptors g)) (interceptors (fireInterceptor fresh tx ty g))) =
           [\<lparr>pt_x = js_add tx (Fin (- 30)), pt_y = ty\<rparr>,
            \<lparr>pt_x = tx, pt_y = ty\<rparr>,
            \<lparr>pt_x = js_add tx (Fin 30), pt_y = ty\<rparr>])
    \<and> (b_id (batteries g ! k) \<noteq> 1 \<longrightarrow>
         map i_start (drop (length (interceptors g)) (interceptors (fireInterceptor fresh tx ty g))) =
           [\<lparr>pt_x = b_x (batteries g ! k), pt_y = Fin 760\<rparr>]
         \<and> map i_target (drop (length (interceptors g)) (interceptors (fireInterceptor fresh tx ty g))) =
           [\<lparr>pt_x = tx, pt_y = ty\<rparr>])
    \<and> list_all (\<lambda>i. i_state i = FLYING \<and> i_pos i = i_start i \<and> i_explosionRadius i = Fin 0)
         (drop (length (interceptors g)) (interceptors (fireInterceptor fresh tx ty g)))
    \<and> score (fireInterceptor fresh tx ty g) = score g
    \<and> rockets (fireInterceptor fresh tx ty g) = rockets g
    \<and> cities (fireInterceptor fresh tx ty g) = cities g"
  using best_eligible[OF best]
  by (simp add: fire_some[OF playing best] Let_def createInterceptor_def WORLD_HEIGHT_def js_add_zero)

theorem fire_request_witness:
  "gameState freshGame = PLAYING
   \<and> fst (closestBattery (Fin 480) (batteries freshGame) 0 (None, PInf)) = Some 1
   \<and> map b_missiles (batteries freshGame) = [20, 40, 20]
   \<and> map b_missiles (batteries (fireInterceptor noIds (Fin 480) (Fin 300) freshGame)) = [20, 39, 20]
   \<and> map i_target (interceptors (fireInterceptor noIds (Fin 480) (Fin 300) freshGame)) =
        [\<lparr>pt_x = Fin 450, pt_y = Fin 300\<rparr>, \<lparr>pt_x = Fin 480, pt_y = Fin 300\<rparr>,
         \<lparr>pt_x = Fin 510, pt_y = Fin 300\<rparr>]
   \<and> map i_start (interceptors (fireInterceptor noIds (Fin 480) (Fin 300) freshGame)) =
        [\<lparr>pt_x = Fin 470, pt_y = Fin 760\<rparr>, \<lparr>pt_x = Fin 500, pt_y = Fin 760\<rparr>,
         \<lparr>pt_x = Fin 530, pt_y = Fin 760\<rparr>]
   \<and> fst (closestBattery (Fin 120) (batteries freshGame) 0 (None, PInf)) = Some 0
   \<and> map b_missiles (batteries (fireInterceptor noIds (Fin 120) (Fin 300) freshGame)) = [19, 40, 20]
   \<and> map i_target (interceptors (fireInterceptor noIds (Fin 120) (Fin 300) freshGame)) =
        [\<lparr>pt_x = Fin 120, pt_y = Fin 300\<rparr>]"
proof -
  have p: "gameState freshGame = PLAYING" by (simp add: freshGame_def)
  have b1: "fst (closestBattery (Fin 480) (batteries freshGame) 0 (None, PInf)) = Some 1"
    by (simp add: freshGame_def initBatteries_def js_sub_def)
  have b0: "fst (closestBattery (Fin 120) (batteries freshGame) 0 (None, PInf)) = Some 0"
    by (simp add: freshGame_def initBatteries_def js_sub_def)
  have i: "interceptors freshGame = []" by (simp add: freshGame_def)
  have m: "map b_missiles (batteries freshGame) = [20, 40, 20]"
    by (simp add: freshGame_def initBatteries_def)
  have c: "b_id (batteries freshGame ! 1) = 1" "b_x (batteries freshGame ! 1) = Fin 500"
     "b_id (batteries freshGame ! 0) \<noteq> 1"
    by (simp_all add: freshGame_def initBatteries_def)
  note A = fire_request [OF p b1, of noIds "Fin 300"]
  note B = fire_request [OF p b0, of noIds "Fin 300"]
  have a1: "map b_missiles (batteries (fireInterceptor noIds (Fin 480) (Fin 300) freshGame)) = [20, 39, 20]"
    using A by (simp add: freshGame_def initBatteries_def)
  have a2: "map i_target (interceptors (fireInterceptor noIds (Fin 480) (Fin 300) freshGame)) =
        [\<lparr>pt_x = Fin 450, pt_y = Fin 300\<rparr>, \<lparr>pt_x = Fin 480, pt_y = Fin 300\<rparr>,
         \<lparr>pt_x = Fin 510, pt_y = Fin 300\<rparr>]"
    using A c i by simp
  have a3: "map i_start (interceptors (fireInterceptor noIds (Fin 480) (Fin 300) freshGame)) =
        [\<lparr>pt_x = Fin 470, pt_y = Fin 760\<rparr>, \<lparr>pt_x = Fin 500, pt_y = Fin 760\<rparr>,
         \<lparr>pt_x = Fin 530, pt_y = Fin 760\<rparr>]"
    using A c i by simp
  have b1': "map b_missiles (batteries (fireInterceptor noIds (Fin 120) (Fin 300) freshGame)) = [19, 40, 20]"
    using B by (simp add: freshGame_def initBatteries_def)
  have b2: "map i_target (interceptors (fireInterceptor noIds (Fin 120) (Fin 300) freshGame)) =
        [\<lparr>pt_x = Fin 120, pt_y = Fin 300\<rparr>]"
    using B c i by simp
  from p b1 m a1 a2 a3 b0 b1' b2 show ?thesis by simp
qed

section \<open>Taps\<close>

lemma hitExplosion_id: "(hitExplosion nid r)\<lparr>i_id := 0\<rparr> = hitExplosion 0 r"
  by (simp add: hitExplosion_def)

lemma directHits_spec:
  "\<exists>news. directHits fresh tx ty rs (sc, dh, ins) =
     (map (\<lambda>r. if directlyHit tx ty r then r\<lparr>r_destroyed := True\<rparr> else r) rs,
      sc + 20 * int (length (filter (directlyHit tx ty) rs)),
      dh \<or> filter (directlyHit tx ty) rs \<noteq> [],
      ins @ news)
    \<and> map (\<lambda>i. i\<lparr>i_id := 0\<rparr>) news = map (hitExplosion 0) (filter (directlyHit tx ty) rs)"
proof (induction rs arbitrary: sc dh ins)
  case Nil
  show ?case by simp
next
  case (Cons r rs)
  show ?case
  proof (cases "directlyHit tx ty r")
    case True
    from Cons.IH[of "sc + 20" True "ins @ [hitExplosion (fresh (length ins)) r]"]
    obtain news where n: "directHits fresh tx ty rs
          (sc + 20, True, ins @ [hitExplosion (fresh (length ins)) r]) =
     (map (\<lambda>r. if directlyHit tx ty r then r\<lparr>r_destroyed := True\<rparr> else r) rs,
      sc + 20 + 20 * int (length (filter (directlyHit tx ty) rs)),
      True \<or> filter (directlyHit tx ty) rs \<noteq> [],
      (ins @ [hitExplosion (fresh (length ins)) r]) @ news)"
      and m: "map (\<lambda>i. i\<lparr>i_id := 0\<rparr>) news = map (hitExplosion 0) (filter (directlyHit tx ty) rs)"
      by blast
    show ?thesis
      apply (rule exI[of _ "hitExplosion (fresh (length ins)) r # news"])
      using True n m by (simp add: hitExplosion_id)
  next
    case False
    from Cons.IH[of sc dh ins]
    obtain news where n: "directHits fresh tx ty rs (sc, dh, ins) =
     (map (\<lambda>r. if directlyHit tx ty r then r\<lparr>r_destroyed := True\<rparr> else r) rs,
      sc + 20 * int (length (filter (directlyHit tx ty) rs)),
      dh \<or> filter (directlyHit tx ty) rs \<noteq> [],
      ins @ news)"
      and m: "map (\<lambda>i. i\<lparr>i_id := 0\<rparr>) news = map (hitExplosion 0) (filter (directlyHit tx ty) rs)"
      by blast
    show ?thesis
      apply (rule exI[of _ news])
      using False n m by simp
  qed
qed

lemma map_field_zero_id:
  assumes "map (\<lambda>i. i\<lparr>i_id := 0\<rparr>) news = map (hitExplosion 0) hs"
      and "\<And>i. f (i\<lparr>i_id := 0\<rparr>) = f i"
  shows "map f news = map (\<lambda>r. f (hitExplosion 0 r)) hs"
proof -
  have "map f news = map f (map (\<lambda>i. i\<lparr>i_id := 0\<rparr>) news)"
    by (simp add: assms(2))
  also have "\<dots> = map f (map (hitExplosion 0) hs)" by (simp only: assms(1))
  finally show ?thesis by (simp add: comp_def)
qed

lemma fire_none:
  "\<forall>b\<in>set (batteries g). \<not> (b_active b \<and> 0 < b_missiles b) \<Longrightarrow>
   fireInterceptor fresh tx ty g = g"
  by (simp add: fireInterceptor_def closestBattery_none)

lemma fire_closest:
  assumes fin: "\<forall>b\<in>set (batteries g). \<exists>v. b_x b = Fin v"
      and ex: "\<exists>b\<in>set (batteries g). b_active b \<and> 0 < b_missiles b"
  shows "\<exists>k<length (batteries g).
           fst (closestBattery (Fin a) (batteries g) 0 (None, PInf)) = Some k
         \<and> (\<forall>j<length (batteries g).
               b_active (batteries g ! j) \<and> 0 < b_missiles (batteries g ! j) \<longrightarrow>
               \<not> js_lt (js_abs (js_sub (b_x (batteries g ! j)) (Fin a)))
                        (js_abs (js_sub (b_x (batteries g ! k)) (Fin a))))"
proof -
  obtain res d where rd: "closestBattery (Fin a) (batteries g) 0 (None, PInf) = (res, d)"
    by (cases "closestBattery (Fin a) (batteries g) 0 (None, PInf)")
  from ex obtain j where j: "j < length (batteries g)" "b_active (batteries g ! j)"
      "0 < b_missiles (batteries g ! j)"
    by (metis in_set_conv_nth)
  from fin j(1) obtain v where v: "b_x (batteries g ! j) = Fin v" by (metis nth_mem)
  from closestBattery_min[OF rd j] v have "d \<noteq> PInf" by (auto simp: js_sub_def)
  with closestBattery_cases[OF rd] obtain k where k: "k < length (batteries g)" "res = Some k"
      "d = js_abs (js_sub (b_x (batteries g ! k)) (Fin a))" by auto
  from closestBattery_min[OF rd] k(3) have
    "\<forall>j<length (batteries g). b_active (batteries g ! j) \<and> 0 < b_missiles (batteries g ! j) \<longrightarrow>
               \<not> js_lt (js_abs (js_sub (b_x (batteries g ! j)) (Fin a)))
                        (js_abs (js_sub (b_x (batteries g ! k)) (Fin a)))" by blast
  with k rd show ?thesis by auto
qed

lemma map_if_no_hit:
  "filter P xs = [] \<Longrightarrow> map (\<lambda>r. if P r then f r else r) xs = xs"
  by (induction xs) (auto split: if_splits)

lemma click_hit:
  assumes playing: "gameState g = PLAYING"
  shows "\<exists>news. map (\<lambda>i. i\<lparr>i_id := 0\<rparr>) news =
                   map (hitExplosion 0) (filter (directlyHit tx ty) (rockets g))
     \<and> (filter (directlyHit tx ty) (rockets g) \<noteq> [] \<longrightarrow>
          handleCanvasClick fresh tx ty g =
            g\<lparr>rockets := map (\<lambda>r. if directlyHit tx ty r then r\<lparr>r_destroyed := True\<rparr> else r)
                             (rockets g),
              score := score g + 20 * int (length (filter (directlyHit tx ty) (rockets g))),
              interceptors := interceptors g @ news\<rparr>)
     \<and> (filter (directlyHit tx ty) (rockets g) = [] \<longrightarrow>
          handleCanvasClick fresh tx ty g = fireInterceptor fresh tx ty g)"
proof -
  from directHits_spec[of fresh tx ty "rockets g" "score g" False "interceptors g"]
  obtain news where d: "directHits fresh tx ty (rockets g) (score g, False, interceptors g) =
     (map (\<lambda>r. if directlyHit tx ty r then r\<lparr>r_destroyed := True\<rparr> else r) (rockets g),
      score g + 20 * int (length (filter (directlyHit tx ty) (rockets g))),
      False \<or> filter (directlyHit tx ty) (rockets g) \<noteq> [],
      interceptors g @ news)"
    and m: "map (\<lambda>i. i\<lparr>i_id := 0\<rparr>) news =
            map (hitExplosion 0) (filter (directlyHit tx ty) (rockets g))"
    by blast
  have hitc: "handleCanvasClick fresh tx ty g =
            g\<lparr>rockets := map (\<lambda>r. if directlyHit tx ty r then r\<lparr>r_destroyed := True\<rparr> else r)
                             (rockets g),
              score := score g + 20 * int (length (filter (directlyHit tx ty) (rockets g))),
              interceptors := interceptors g @ news\<rparr>"
    if "filter (directlyHit tx ty) (rockets g) \<noteq> []"
    using playing d that by (simp add: handleCanvasClick_def)
  have noc: "handleCanvasClick fresh tx ty g = fireInterceptor fresh tx ty g"
    if e: "filter (directlyHit tx ty) (rockets g) = []"
  proof -
    from m e have "news = []" by simp
    with playing d e show ?thesis
      by (simp add: handleCanvasClick_def map_if_no_hit)
  qed
  from m hitc noc show ?thesis by blast
qed

lemma fire_rockets: "rockets (fireInterceptor fresh tx ty g) = rockets g"
  by (simp add: fireInterceptor_def Let_def split: option.splits)

text \<open>
  A tap 10 units beside a rocket in mid-air is a direct hit. The explosion it pushes
  has radius 10, not its maximum 60, and lies at the rocket, not at the tap point.
\<close>

lemma tap_explosion_starts_small:
  "directlyHit (Fin 510) (Fin 300) midAir
   \<and> \<not> r_destroyed midAir
   \<and> rockets tapState = [midAir]
   \<and> map i_state (interceptors (handleCanvasClick noIds (Fin 510) (Fin 300) tapState)) = [EXPLODING]
   \<and> map i_explosionRadius (interceptors (handleCanvasClick noIds (Fin 510) (Fin 300) tapState))
        = [Fin 10]
   \<and> map i_maxExplosionRadius (interceptors (handleCanvasClick noIds (Fin 510) (Fin 300) tapState))
        = [Fin 60]
   \<and> map i_explosionRadius (interceptors (handleCanvasClick noIds (Fin 510) (Fin 300) tapState))
      \<noteq> map i_maxExplosionRadius (interceptors (handleCanvasClick noIds (Fin 510) (Fin 300) tapState))
   \<and> map i_pos (interceptors (handleCanvasClick noIds (Fin 510) (Fin 300) tapState))
        = [\<lparr>pt_x = Fin 500, pt_y = Fin 300\<rparr>]
   \<and> map i_pos (interceptors (handleCanvasClick noIds (Fin 510) (Fin 300) tapState))
      \<noteq> [\<lparr>pt_x = Fin 510, pt_y = Fin 300\<rparr>]"
  by (simp add: tapState_def midAir_def handleCanvasClick_def directlyHit_def hitExplosion_def
      scene_defs js_defs const_defs sqrt_values)

text \<open>
  What a tap at the world point \<open>(tx, ty)\<close> does while PLAYING. Every rocket of the
  collection less than 30 units from the tap point, destroyed or not, is marked
  destroyed; when there is such a rocket, the score grows by 20 for each of them, one
  interceptor for each is appended, in state EXPLODING with start, position and target
  at the rocket's position, radius 10 and timer 0, and no battery fires; when there is
  none, the tap is the fire request \<^verbatim>\<open>fireInterceptor\<close>: no change at all if no battery
  is active with ammunition, and otherwise (tap x and battery x finite) an active
  battery with ammunition that no other such battery is closer to in x loses one
  missile and the interceptor collection grows.
\<close>

lemma tap_effect:
  assumes playing: "gameState g = PLAYING"
  shows
  "rockets (handleCanvasClick fresh tx ty g) =
      map (\<lambda>r. if directlyHit tx ty r then r\<lparr>r_destroyed := True\<rparr> else r) (rockets g)
   \<and> (filter (directlyHit tx ty) (rockets g) \<noteq> [] \<longrightarrow>
        score (handleCanvasClick fresh tx ty g) =
          score g + 20 * int (length (filter (directlyHit tx ty) (rockets g)))
      \<and> take (length (interceptors g)) (interceptors (handleCanvasClick fresh tx ty g))
          = interceptors g
      \<and> map i_state (drop (length (interceptors g)) (interceptors (handleCanvasClick fresh tx ty g)))
          = map (\<lambda>r. EXPLODING) (filter (directlyHit tx ty) (rockets g))
      \<and> map i_pos (drop (length (interceptors g)) (interceptors (handleCanvasClick fresh tx ty g)))
          = map r_pos (filter (directlyHit tx ty) (rockets g))
      \<and> map i_start (drop (length (interceptors g)) (interceptors (handleCanvasClick fresh tx ty g)))
          = map r_pos (filter (directlyHit tx ty) (rockets g))
      \<and> map i_target (drop (length (interceptors g)) (interceptors (handleCanvasClick fresh tx ty g)))
          = map r_pos (filter (directlyHit tx ty) (rockets g))
      \<and> map i_explosionRadius
            (drop (length (interceptors g)) (interceptors (handleCanvasClick fresh tx ty g)))
          = map (\<lambda>r. Fin 10) (filter (directlyHit tx ty) (rockets g))
      \<and> map i_explosionTimer
            (drop (length (interceptors g)) (interceptors (handleCanvasClick fresh tx ty g)))
          = map (\<lambda>r. 0) (filter (directlyHit tx ty) (rockets g))
      \<and> batteries (handleCanvasClick fresh tx ty g) = batteries g)
   \<and> (filter (directlyHit tx ty) (rockets g) = [] \<longrightarrow>
        handleCanvasClick fresh tx ty g = fireInterceptor fresh tx ty g)
   \<and> (filter (directlyHit tx ty) (rockets g) = []
        \<and> (\<forall>b\<in>set (batteries g). \<not> (b_active b \<and> 0 < b_missiles b)) \<longrightarrow>
        handleCanvasClick fresh tx ty g = g)
   \<and> (filter (directlyHit tx ty) (rockets g) = [] \<and> tx = Fin a
        \<and> (\<forall>b\<in>set (batteries g). \<exists>v. b_x b = Fin v)
        \<and> (\<exists>b\<in>set (batteries g). b_active b \<and> 0 < b_missiles b) \<longrightarrow>
        (\<exists>k<length (batteries g).
            b_active (batteries g ! k) \<and> 0 < b_missiles (batteries g ! k)
          \<and> (\<forall>j<length (batteries g).
                b_active (batteries g ! j) \<and> 0 < b_missiles (batteries g ! j) \<longrightarrow>
                \<not> js_lt (js_abs (js_sub (b_x (batteries g ! j)) tx))
                         (js_abs (js_sub (b_x (batteries g ! k)) tx)))
          \<and> batteries (handleCanvasClick fresh tx ty g) =
              (batteries g)[k := (batteries g ! k)\<lparr>b_missiles := b_missiles (batteries g ! k) - 1\<rparr>]
          \<and> length (interceptors g) < length (interceptors (handleCanvasClick fresh tx ty g))))"
proof -
  let ?H = "filter (directlyHit tx ty) (rockets g)"
  let ?h = "handleCanvasClick fresh tx ty g"
  from click_hit[OF playing, of tx ty fresh]
  obtain news where m: "map (\<lambda>i. i\<lparr>i_id := 0\<rparr>) news = map (hitExplosion 0) ?H"
    and hitc: "?H \<noteq> [] \<Longrightarrow> ?h =
            g\<lparr>rockets := map (\<lambda>r. if directlyHit tx ty r then r\<lparr>r_destroyed := True\<rparr> else r)
                             (rockets g),
              score := score g + 20 * int (length ?H),
              interceptors := interceptors g @ news\<rparr>"
    and noc: "?H = [] \<Longrightarrow> ?h = fireInterceptor fresh tx ty g"
    by blast
  have r: "rockets ?h =
      map (\<lambda>r. if directlyHit tx ty r then r\<lparr>r_destroyed := True\<rparr> else r) (rockets g)"
  proof (cases "?H = []")
    case True
    then show ?thesis by (simp add: noc fire_rockets map_if_no_hit)
  next
    case False
    then show ?thesis by (simp add: hitc)
  qed
  have st: "map i_state news = map (\<lambda>r. EXPLODING) ?H"
    using map_field_zero_id[OF m, of i_state] by (simp add: hitExplosion_def)
  have po: "map i_pos news = map r_pos ?H"
    using map_field_zero_id[OF m, of i_pos] by (simp add: hitExplosion_def)
  have sa: "map i_start news = map r_pos ?H"
    using map_field_zero_id[OF m, of i_start] by (simp add: hitExplosion_def)
  have ta: "map i_target news = map r_pos ?H"
    using map_field_zero_id[OF m, of i_target] by (simp add: hitExplosion_def)
  have ra: "map i_explosionRadius news = map (\<lambda>r. Fin 10) ?H"
    using map_field_zero_id[OF m, of i_explosionRadius] by (simp add: hitExplosion_def)
  have ti: "map i_explosionTimer news = map (\<lambda>r. 0) ?H"
    using map_field_zero_id[OF m, of i_explosionTimer] by (simp add: hitExplosion_def)
  have hits: "?H \<noteq> [] \<longrightarrow>
        score ?h = score g + 20 * int (length ?H)
      \<and> take (length (interceptors g)) (interceptors ?h) = interceptors g
      \<and> map i_state (drop (length (interceptors g)) (interceptors ?h)) = map (\<lambda>r. EXPLODING) ?H
      \<and> map i_pos (drop (length (interceptors g)) (interceptors ?h)) = map r_pos ?H
      \<and> map i_start (drop (length (interceptors g)) (interceptors ?h)) = map r_pos ?H
      \<and> map i_target (drop (length (interceptors g)) (interceptors ?h)) = map r_pos ?H
      \<and> map i_explosionRadius (drop (length (interceptors g)) (interceptors ?h))
          = map (\<lambda>r. Fin 10) ?H
      \<and> map i_explosionTimer (drop (length (interceptors g)) (interceptors ?h))
          = map (\<lambda>r. 0) ?H
      \<and> batteries ?h = batteries g"
    using st po sa ta ra ti by (simp add: hitc)
  have nop: "?H = [] \<and> (\<forall>b\<in>set (batteries g). \<not> (b_active b \<and> 0 < b_missiles b)) \<longrightarrow> ?h = g"
    using noc fire_none by metis
  have cl: "\<exists>k<length (batteries g).
            b_active (batteries g ! k) \<and> 0 < b_missiles (batteries g ! k)
          \<and> (\<forall>j<length (batteries g).
                b_active (batteries g ! j) \<and> 0 < b_missiles (batteries g ! j) \<longrightarrow>
                \<not> js_lt (js_abs (js_sub (b_x (batteries g ! j)) tx))
                         (js_abs (js_sub (b_x (batteries g ! k)) tx)))
          \<and> batteries ?h =
              (batteries g)[k := (batteries g ! k)\<lparr>b_missiles := b_missiles (batteries g ! k) - 1\<rparr>]
          \<and> length (interceptors g) < length (interceptors ?h)"
    if e: "?H = []" and t: "tx = Fin a" and fin: "\<forall>b\<in>set (batteries g). \<exists>v. b_x b = Fin v"
      and ex: "\<exists>b\<in>set (batteries g). b_active b \<and> 0 < b_missiles b"
  proof -
    from fire_closest[OF fin ex, of a] t
    obtain k where k: "k < length (batteries g)"
      and b: "fst (closestBattery tx (batteries g) 0 (None, PInf)) = Some k"
      and mn: "\<forall>j<length (batteries g).
               b_active (batteries g ! j) \<and> 0 < b_missiles (batteries g ! j) \<longrightarrow>
               \<not> js_lt (js_abs (js_sub (b_x (batteries g ! j)) tx))
                        (js_abs (js_sub (b_x (batteries g ! k)) tx))"
      by auto
    note el = best_eligible[OF b]
    note F = fire_some[OF playing b, of fresh ty]
    have bt: "batteries (fireInterceptor fresh tx ty g) =
        (batteries g)[k := (batteries g ! k)\<lparr>b_missiles := b_missiles (batteries g ! k) - 1\<rparr>]"
      by (simp add: F Let_def)
    have ln: "length (interceptors g) < length (interceptors (fireInterceptor fresh tx ty g))"
      by (simp add: F Let_def)
    from k el mn bt ln show ?thesis by (auto simp: noc[OF e])
  qed
  from r hits noc nop cl show ?thesis by blast
qed

text \<open>
  C5. The direct-hit loop of \<^verbatim>\<open>handleCanvasClick\<close> has no test of \<^verbatim>\<open>rocket.destroyed\<close>
  (the collision loop of the explosions has one). In \<open>tapped\<close> the only rocket is
  already destroyed, credited with 20 points, and still in the collection. A second tap
  on the same point counts it as a direct hit again: the score goes from 20 to 40, a
  second explosion is pushed, and no battery fires, where the fire request for that
  point would take a missile from the left battery.
\<close>

theorem repeated_tap_scores_again:
  "map r_destroyed (rockets tapped) = [True]
   \<and> map (directlyHit (Fin 200) (Fin (1559 / 2))) (rockets tapped) = [True]
   \<and> score tapped = 20
   \<and> map i_state (interceptors tapped) = [EXPLODING]
   \<and> map b_missiles (batteries tapped) = [20, 40, 20]
   \<and> score (handleCanvasClick noIds (Fin 200) (Fin (1559 / 2)) tapped) = 40
   \<and> map i_state (interceptors (handleCanvasClick noIds (Fin 200) (Fin (1559 / 2)) tapped))
        = [EXPLODING, EXPLODING]
   \<and> map b_missiles (batteries (handleCanvasClick noIds (Fin 200) (Fin (1559 / 2)) tapped))
        = [20, 40, 20]
   \<and> map b_missiles (batteries (fireInterceptor noIds (Fin 200) (Fin (1559 / 2)) tapped))
        = [19, 40, 20]"
  by (simp add: tapped_def handleCanvasClick_def directlyHit_def hitExplosion_def
      fireInterceptor_def createInterceptor_def scene_defs js_defs const_defs Let_def)

section \<open>Termination checks\<close>

text \<open>
  The ammunition check decides alone: with the ammunition spent and the field clear, the
  step ends in ROUND_END whatever the batteries and the score are.
\<close>

lemma checkEnd_exhausted:
  assumes "foldl (\<lambda>acc b. acc + b_missiles b) 0 (batteries g) = 0"
      and "rockets g = []" and "interceptors g = []"
  shows "gameState (checkEnd score0 g) = ROUND_END"
  using assms by (simp add: checkEnd_def Let_def)

text \<open>
  C1. The step on \<open>lastStand\<close>: the last rocket lands on the center battery, the only
  active one, so after the rocket loop every battery is inactive and \<^verbatim>\<open>update\<close> calls
  \<^verbatim>\<open>setGameState('LOST')\<close>. The ammunition check that follows is not an \<^verbatim>\<open>else\<close>
  branch: the ammunition is spent and the field is clear, so it adds the bonus
  \<open>6 * 50 + 18 * 20 = 660\<close> and calls \<^verbatim>\<open>setGameState('ROUND_END')\<close>. The session ends
  the step in ROUND_END, not in LOST.
\<close>

theorem lost_overridden_by_round_end:
  "map b_active (batteries lastStand) = [False, True, False]
   \<and> map b_missiles (batteries lastStand) = [0, 0, 0]
   \<and> score lastStand = 0
   \<and> map b_active (batteries (update 0 0 0 0 lastStand)) = [False, False, False]
   \<and> rockets (update 0 0 0 0 lastStand) = []
   \<and> gameState (update 0 0 0 0 lastStand) = ROUND_END
   \<and> gameState (update 0 0 0 0 lastStand) \<noteq> LOST
   \<and> score (update 0 0 0 0 lastStand) = 660"
  by (simp add: lastStand_def scene_defs step_defs js_defs const_defs sqrt_608400 Let_def)

section \<open>Destroyed rockets in the rocket loop\<close>

text \<open>
  The kinematics of a rocket with finite coordinates whose target lies below its start:
  after \<open>n\<close> moves from its start the rocket has advanced \<open>n\<close> times its velocity, and
  the test for impact holds from move \<open>\<lceil>dist / speed\<rceil>\<close> on, not before.
\<close>

lemma rocketMove_fields:
  "r_start (rocketMove r) = r_start r" "r_target (rocketMove r) = r_target r"
  "r_speed (rocketMove r) = r_speed r" "r_destroyed (rocketMove r) = r_destroyed r"
  by (simp_all add: rocketMove_def Let_def)

lemma rocketMove_iter_fields:
  "r_start ((rocketMove ^^ n) r) = r_start r \<and> r_target ((rocketMove ^^ n) r) = r_target r
   \<and> r_speed ((rocketMove ^^ n) r) = r_speed r"
  by (induction n) (simp_all add: rocketMove_fields)

lemma flight_length_pos:
  fixes sy ty :: real
  assumes "sy < ty"
  shows "0 < sqrt ((tx - sx) * (tx - sx) + (ty - sy) * (ty - sy))"
proof -
  from assms have "0 < (ty - sy) * (ty - sy)" by simp
  moreover have "0 \<le> (tx - sx) * (tx - sx)" by simp
  ultimately have "0 < (tx - sx) * (tx - sx) + (ty - sy) * (ty - sy)" by linarith
  then show ?thesis by simp
qed

lemma rocketMove_finite:
  assumes "r_start r = \<lparr>pt_x = Fin sx, pt_y = Fin sy\<rparr>"
      and "r_target r = \<lparr>pt_x = Fin tx, pt_y = Fin ty\<rparr>"
      and "r_speed r = Fin v"
      and "r_pos r = \<lparr>pt_x = Fin px, pt_y = Fin py\<rparr>"
      and "sy < ty"
  shows "r_pos (rocketMove r) =
     \<lparr>pt_x = Fin (px + (tx - sx) / sqrt ((tx - sx) * (tx - sx) + (ty - sy) * (ty - sy)) * v),
      pt_y = Fin (py + (ty - sy) / sqrt ((tx - sx) * (tx - sx) + (ty - sy) * (ty - sy)) * v)\<rparr>"
proof -
  define dx where "dx = tx - sx"
  define dy where "dy = ty - sy"
  define D where "D = sqrt (dx * dx + dy * dy)"
  have nn: "\<not> dx * dx + dy * dy < 0"
    by (simp add: not_less)
  have "0 < D" unfolding D_def dx_def dy_def by (rule flight_length_pos[OF assms(5)])
  then have nz: "D \<noteq> 0" by simp
  have x: "js_sub (pt_x (r_target r)) (pt_x (r_start r)) = Fin dx"
    by (simp add: assms(1,2) js_sub_def dx_def)
  have y: "js_sub (pt_y (r_target r)) (pt_y (r_start r)) = Fin dy"
    by (simp add: assms(1,2) js_sub_def dy_def)
  have d: "js_sqrt (Fin (dx * dx + dy * dy)) = Fin D"
    using nn by (simp add: D_def)
  have q: "js_div (Fin dx) (Fin D) = Fin (dx / D)" "js_div (Fin dy) (Fin D) = Fin (dy / D)"
    using nz by simp_all
  have "r_pos (rocketMove r) = \<lparr>pt_x = Fin (px + dx / D * v), pt_y = Fin (py + dy / D * v)\<rparr>"
    by (simp add: rocketMove_def Let_def x y d q assms(3,4) del: js_sqrt.simps js_div.simps)
  then show ?thesis by (simp only: D_def dx_def dy_def)
qed

lemma rocketMove_iter:
  assumes "r_start r = \<lparr>pt_x = Fin sx, pt_y = Fin sy\<rparr>"
      and "r_target r = \<lparr>pt_x = Fin tx, pt_y = Fin ty\<rparr>"
      and "r_speed r = Fin v"
      and "r_pos r = \<lparr>pt_x = Fin px, pt_y = Fin py\<rparr>"
      and "sy < ty"
  shows "r_pos ((rocketMove ^^ n) r) =
     \<lparr>pt_x = Fin (px + real n * ((tx - sx) / sqrt ((tx - sx) * (tx - sx) + (ty - sy) * (ty - sy)) * v)),
      pt_y = Fin (py + real n * ((ty - sy) / sqrt ((tx - sx) * (tx - sx) + (ty - sy) * (ty - sy)) * v))\<rparr>"
proof -
  define vx where "vx = (tx - sx) / sqrt ((tx - sx) * (tx - sx) + (ty - sy) * (ty - sy)) * v"
  define vy where "vy = (ty - sy) / sqrt ((tx - sx) * (tx - sx) + (ty - sy) * (ty - sy)) * v"
  have "r_pos ((rocketMove ^^ n) r) =
          \<lparr>pt_x = Fin (px + real n * vx), pt_y = Fin (py + real n * vy)\<rparr>"
  proof (induction n)
    case 0
    show ?case by (simp add: assms(4))
  next
    case (Suc n)
    let ?q = "(rocketMove ^^ n) r"
    from rocketMove_iter_fields[of n r] assms(1-3)
    have f: "r_start ?q = \<lparr>pt_x = Fin sx, pt_y = Fin sy\<rparr>"
            "r_target ?q = \<lparr>pt_x = Fin tx, pt_y = Fin ty\<rparr>" "r_speed ?q = Fin v"
      by simp_all
    have "r_pos (rocketMove ?q) =
            \<lparr>pt_x = Fin (px + real n * vx + vx), pt_y = Fin (py + real n * vy + vy)\<rparr>"
      by (rule rocketMove_finite[OF f Suc.IH assms(5), folded vx_def vy_def])
    then show ?case by (simp add: distrib_right add.commute add.left_commute)
  qed
  then show ?thesis by (simp only: vx_def vy_def)
qed

lemma rocket_lands_iff:
  assumes "r_start r = \<lparr>pt_x = Fin sx, pt_y = Fin sy\<rparr>"
      and "r_target r = \<lparr>pt_x = Fin tx, pt_y = Fin ty\<rparr>"
      and "r_speed r = Fin v"
      and "r_pos r = r_start r"
      and "sy < ty"
  shows "js_ge (pt_y (r_pos ((rocketMove ^^ n) r))) (pt_y (r_target r)) \<longleftrightarrow>
         sqrt ((tx - sx) * (tx - sx) + (ty - sy) * (ty - sy)) \<le> real n * v"
proof -
  let ?D = "sqrt ((tx - sx) * (tx - sx) + (ty - sy) * (ty - sy))"
  have D: "0 < ?D" by (rule flight_length_pos[OF assms(5)])
  from assms(5) have dy: "0 < ty - sy" by simp
  from assms(1,4) have p: "r_pos r = \<lparr>pt_x = Fin sx, pt_y = Fin sy\<rparr>" by simp
  have "js_ge (pt_y (r_pos ((rocketMove ^^ n) r))) (pt_y (r_target r)) \<longleftrightarrow>
        ty \<le> sy + real n * ((ty - sy) / ?D * v)"
    by (auto simp: rocketMove_iter[OF assms(1-3) p assms(5)] assms(2) js_ge_def js_eq_def)
  also have "\<dots> \<longleftrightarrow> (ty - sy) * 1 \<le> (ty - sy) * (real n * v / ?D)"
    by (simp add: algebra_simps)
  also have "\<dots> \<longleftrightarrow> 1 \<le> real n * v / ?D"
    using dy by (simp only: mult_le_cancel_left_pos)
  also have "\<dots> \<longleftrightarrow> ?D \<le> real n * v"
    using D by (simp add: field_simps)
  finally show ?thesis .
qed

lemma rocket_lands_at_ceiling:
  assumes "r_start r = \<lparr>pt_x = Fin sx, pt_y = Fin sy\<rparr>"
      and "r_target r = \<lparr>pt_x = Fin tx, pt_y = Fin ty\<rparr>"
      and "r_speed r = Fin v"
      and "r_pos r = r_start r"
      and "sy < ty" and "0 < v"
  shows "js_ge (pt_y (r_pos ((rocketMove ^^ n) r))) (pt_y (r_target r)) \<longleftrightarrow>
         nat \<lceil>sqrt ((tx - sx) * (tx - sx) + (ty - sy) * (ty - sy)) / v\<rceil> \<le> n"
proof -
  let ?D = "sqrt ((tx - sx) * (tx - sx) + (ty - sy) * (ty - sy))"
  have "?D \<le> real n * v \<longleftrightarrow> ?D / v \<le> real n"
    using assms(6) by (simp add: field_simps)
  also have "\<dots> \<longleftrightarrow> \<lceil>?D / v\<rceil> \<le> int n"
    by (simp add: ceiling_le_iff)
  also have "\<dots> \<longleftrightarrow> nat \<lceil>?D / v\<rceil> \<le> n" by linarith
  finally show ?thesis
    by (simp only: rocket_lands_iff[OF assms(1-5)])
qed

text \<open>The rocket loop does not read the flag \<^verbatim>\<open>destroyed\<close> of the rocket it moves.\<close>

lemma rocketStep_ignores_flag:
  "snd (rocketStep (r\<lparr>r_destroyed := d\<rparr>) cs bs) = snd (rocketStep r cs bs)"
  by (simp add: rocketStep_def rocketMove_def Let_def)

text \<open>
  C2. The rocket loop of \<^verbatim>\<open>update\<close> has no test of \<^verbatim>\<open>rocket.destroyed\<close> (the collision
  loop of the explosions has one). In \<open>tapped\<close> the only rocket was destroyed by a
  direct hit, for 20 points, and is still in the collection; the next step moves it
  from y = 779.5 to y = 780.4, resolves its impact and takes a shield from the first
  city.
\<close>

theorem destroyed_rocket_still_impacts:
  "map r_destroyed (rockets tapped) = [True]
   \<and> score tapped = 20
   \<and> map r_pos (rockets tapped) = [\<lparr>pt_x = Fin 200, pt_y = Fin (1559 / 2)\<rparr>]
   \<and> map c_shields (cities tapped) = [3, 3, 3, 3, 3, 3]
   \<and> map r_pos (fst (updateRockets (rockets tapped) (cities tapped) (batteries tapped)))
        = [\<lparr>pt_x = Fin 200, pt_y = Fin (3902 / 5)\<rparr>]
   \<and> map c_shields (cities (update 0 0 0 0 tapped)) = [2, 3, 3, 3, 3, 3]
   \<and> rockets (update 0 0 0 0 tapped) = []"
  by (simp add: tapped_def handleCanvasClick_def directlyHit_def hitExplosion_def
      scene_defs step_defs js_defs const_defs sqrt_608400 Let_def)

section \<open>Zero-length flight\<close>

text \<open>
  An interceptor or a rocket with finite coordinates whose start is its target: one move
  sets both coordinates of its position to \<^verbatim>\<open>NaN\<close> and leaves its state as it was.
\<close>

lemma js_add_NaN_right: "js_add a NaN = NaN"
  by (cases a) simp_all

lemma js_mul_NaN_right: "js_mul a NaN = NaN"
  by (cases a) simp_all

lemma zero_length_interceptor:
  assumes "i_start i = i_target i"
      and "pt_x (i_start i) = Fin a" and "pt_y (i_start i) = Fin b"
  shows "i_pos (interceptorFly i) = \<lparr>pt_x = NaN, pt_y = NaN\<rparr>
       \<and> i_state (interceptorFly i) = i_state i"
  using assms
  by (cases "i_speed i")
     (simp_all add: interceptorFly_def js_defs Let_def js_add_NaN_right js_mul_NaN_right)

lemma zero_length_rocket:
  assumes "r_start r = r_target r"
      and "pt_x (r_start r) = Fin a" and "pt_y (r_start r) = Fin b"
  shows "r_pos (fst (rocketStep r cs bs)) = \<lparr>pt_x = NaN, pt_y = NaN\<rparr>
       \<and> r_destroyed (fst (rocketStep r cs bs)) = r_destroyed r"
  using assms
  by (cases "r_speed r")
     (simp_all add: rocketStep_def rocketMove_def js_defs Let_def js_add_NaN_right js_mul_NaN_right)

text \<open>
  C3. In \<open>muzzleTap\<close> the left battery has fired at its own muzzle: start and target
  of the interceptor are the point (100, 760). The step divides 0 by the distance 0:
  position x and y become \<^verbatim>\<open>NaN\<close>, the test for arrival is false, and the interceptor
  stays FLYING at \<^verbatim>\<open>NaN\<close> in the next step too. The same happens to a rocket whose start
  is its target: its position becomes \<^verbatim>\<open>NaN\<close> and it is not destroyed.
\<close>

theorem zero_length_flight_is_nan:
  "map i_start (interceptors muzzleTap) = [\<lparr>pt_x = Fin 100, pt_y = Fin 760\<rparr>]
   \<and> map i_target (interceptors muzzleTap) = [\<lparr>pt_x = Fin 100, pt_y = Fin 760\<rparr>]
   \<and> map i_pos (interceptors muzzleTap) = [\<lparr>pt_x = Fin 100, pt_y = Fin 760\<rparr>]
   \<and> map i_pos (interceptors (update 0 0 0 0 muzzleTap)) = [\<lparr>pt_x = NaN, pt_y = NaN\<rparr>]
   \<and> map i_state (interceptors (update 0 0 0 0 muzzleTap)) = [FLYING]
   \<and> map i_pos (interceptors (update 0 0 0 0 (update 0 0 0 0 muzzleTap)))
        = [\<lparr>pt_x = NaN, pt_y = NaN\<rparr>]
   \<and> map i_state (interceptors (update 0 0 0 0 (update 0 0 0 0 muzzleTap))) = [FLYING]
   \<and> r_start parked = r_target parked
   \<and> r_pos (fst (rocketStep parked initCities initBatteries)) = \<lparr>pt_x = NaN, pt_y = NaN\<rparr>
   \<and> \<not> r_destroyed (fst (rocketStep parked initCities initBatteries))"
  by (simp add: muzzleTap_def parked_def fireInterceptor_def createInterceptor_def
      scene_defs step_defs js_defs const_defs Let_def)

section \<open>Explosions of fired interceptors\<close>

text \<open>
  Flying does not change the radius, and \<^verbatim>\<open>createInterceptor\<close> sets it to 0: an
  interceptor of a battery is dropped by the cleanup in the step that sets it to
  EXPLODING. The explosion of a direct hit starts at radius 10: it grows by 2 for 30
  ticks to 70, shrinks by 2 to 0 at tick 65, and is kept exactly until then.
\<close>

lemma interceptorFly_radius:
  "i_explosionRadius (interceptorFly i) = i_explosionRadius i"
  by (simp add: interceptorFly_def Let_def)

lemma createInterceptor_radius:
  "i_explosionRadius (createInterceptor b tx ty nid off) = Fin 0"
  by (simp add: createInterceptor_def)

lemma arrival_is_removal:
  assumes "i_explosionRadius i = Fin 0" and "i_state (interceptorFly i) = EXPLODING"
  shows "\<not> keptInterceptor (interceptorFly i)"
  using assms by (simp add: keptInterceptor_def js_gt_def interceptorFly_radius)

lemma tap_explosion_trace:
  "i_explosionTimer ((explodeTick ^^ n) (hitExplosion nid r)) = int n
   \<and> i_explosionRadius ((explodeTick ^^ n) (hitExplosion nid r)) =
       Fin (if n \<le> 30 then 10 + 2 * real n else 130 - 2 * real n)
   \<and> i_state ((explodeTick ^^ n) (hitExplosion nid r)) = EXPLODING"
proof (induction n)
  case 0
  show ?case by (simp add: hitExplosion_def)
next
  case (Suc n)
  then show ?case
    by (auto simp: explodeTick_def Let_def EXPLOSION_SPEED_def js_sub_def)
qed

lemma tap_explosion_kept:
  "keptInterceptor ((explodeTick ^^ n) (hitExplosion nid r)) \<longleftrightarrow> n < 65"
  using tap_explosion_trace[of n nid r]
  by (auto simp: keptInterceptor_def js_gt_def)

text \<open>
  C9. In \<open>firedUp\<close> the left battery has fired at a point 60 units above its muzzle.
  The interceptor flies four steps; the fifth step moves it onto its target and sets
  its state to EXPLODING, with the radius 0 it was created with, and the cleanup of that
  same step, which keeps an interceptor only if its radius is above 0 or it is FLYING,
  removes it. Its explosion has no tick: the radius never grows.
\<close>

theorem fired_interceptor_never_explodes:
  "map i_state (interceptors firedUp) = [FLYING]
   \<and> map i_explosionRadius (interceptors firedUp) = [Fin 0]
   \<and> map i_target (interceptors firedUp) = [\<lparr>pt_x = Fin 100, pt_y = Fin 700\<rparr>]
   \<and> map i_state (interceptors (update 0 0 0 0 (update 0 0 0 0 (update 0 0 0 0
        (update 0 0 0 0 firedUp))))) = [FLYING]
   \<and> map i_pos (interceptors (update 0 0 0 0 (update 0 0 0 0 (update 0 0 0 0
        (update 0 0 0 0 firedUp))))) = [\<lparr>pt_x = Fin 100, pt_y = Fin 712\<rparr>]
   \<and> map i_state (fst (updateInterceptors (interceptors (update 0 0 0 0 (update 0 0 0 0
        (update 0 0 0 0 (update 0 0 0 0 firedUp))))) [] 0)) = [EXPLODING]
   \<and> map i_explosionRadius (fst (updateInterceptors (interceptors (update 0 0 0 0
        (update 0 0 0 0 (update 0 0 0 0 (update 0 0 0 0 firedUp))))) [] 0)) = [Fin 0]
   \<and> interceptors (update 0 0 0 0 (update 0 0 0 0 (update 0 0 0 0 (update 0 0 0 0
        (update 0 0 0 0 firedUp))))) = []"
  by (simp add: firedUp_def fireInterceptor_def createInterceptor_def
      scene_defs step_defs js_defs const_defs sqrt_values Let_def)

end
